theory Spec2Isabelle
  imports Complex_Main "HOL-Library.Sublist"
begin

section \<open>Values and failures of the planner front end\<close>

text \<open>
  The module \<^verbatim>\<open>planner/dexgraspvla_planner.py\<close> holds one class, \<open>DexGraspVLAPlanner\<close>,
  whose method \<open>request_task\<close> selects a prompt by task name, sends it to a chat-completion
  service and decodes the answer. Its result is dynamically typed (a string, a list, a
  boolean or whatever the JSON parser produced), so results are Python values.
\<close>

datatype pyval =
    PNone
  | PBool bool
  | PInt int
  | PFloat real
  | PStr string
  | PList "pyval list"
  | PDict "(string \<times> pyval) list"

text \<open>
  A \<open>PDict\<close> lists the items of a dictionary with string keys, each key once, as a
  parsed JSON object has them.
\<close>

fun is_list :: "pyval \<Rightarrow> bool" where
  "is_list (PList xs) = True"
| "is_list v = False"

fun is_str :: "pyval \<Rightarrow> bool" where
  "is_str (PStr s) = True"
| "is_str v = False"

fun is_bool :: "pyval \<Rightarrow> bool" where
  "is_bool (PBool b) = True"
| "is_bool v = False"

fun is_number :: "pyval \<Rightarrow> bool" where
  "is_number (PInt i) = True"
| "is_number (PFloat x) = True"
| "is_number v = False"

text \<open>
  Every \<open>raise\<close> of \<open>request_task\<close> is a \<open>ValueError\<close>; the five sites differ in the
  message, which embeds the offending value:
  \<^item> \<open>NotValidTaskName\<close>: \<^verbatim>\<open>The task_name {task_name} is not a valid task name.\<close>
  \<^item> \<open>WrongFormat\<close>: \<^verbatim>\<open>The output text {response} is in the wrong format.\<close>
  \<^item> \<open>NotValidList\<close>: \<^verbatim>\<open>The output text {list_output} is not a valid list.\<close>
  \<^item> \<open>NotValidString\<close>: \<^verbatim>\<open>The output text {generate_task} is not a valid string.\<close>
  \<^item> \<open>NoValidBoolean\<close>:
    \<^verbatim>\<open>The output text {response} does not contain a valid boolean value.\<close>
\<close>

datatype value_error =
    NotValidTaskName string
  | WrongFormat string
  | NotValidList pyval
  | NotValidString pyval
  | NoValidBoolean string

text \<open>
  The other failures are the interpreter's own (\<open>KeyError\<close> and \<open>TypeError\<close> of a
  subscript, \<open>IndexError\<close> of \<open>choices[0]\<close>, \<open>AttributeError\<close> of \<open>.lower()\<close> on
  \<open>None\<close>) and the exceptions that leave a collaborator (the completion client, the
  helpers of \<open>planner.utils\<close>, \<open>json_repair\<close>), which pass through unchanged.
\<close>

type_synonym exn = string

datatype error =
    ValueError value_error
  | KeyError string
  | TypeError
  | IndexError
  | AttributeError
  | Raised exn

fun call :: "exn + 'a \<Rightarrow> error + 'a" where
  "call (Inl e) = Inl (Raised e)"
| "call (Inr v) = Inr v"

fun bind :: "error + 'a \<Rightarrow> ('a \<Rightarrow> error + 'b) \<Rightarrow> error + 'b" where
  "bind (Inl e) f = Inl e"
| "bind (Inr v) f = f v"

section \<open>Strings\<close>

text \<open>
  \<open>str.lower()\<close> on the letters \<open>A\<close> to \<open>Z\<close>; every other character is kept. The
  lowered text is only searched for the words \<open>true\<close> and \<open>false\<close>, and Python lowers
  no character outside \<open>A\<close> to \<open>Z\<close> to one of their letters, so the searches agree.
\<close>

definition lower_char :: "char \<Rightarrow> char" where
  "lower_char c =
     (case map_of (zip ''ABCDEFGHIJKLMNOPQRSTUVWXYZ'' ''abcdefghijklmnopqrstuvwxyz'') c of
        Some d \<Rightarrow> d
      | None \<Rightarrow> c)"

definition lower :: "string \<Rightarrow> string" where
  "lower s = map lower_char s"

text \<open>The substring test \<^verbatim>\<open>sub in s\<close>.\<close>

fun contains :: "string \<Rightarrow> string \<Rightarrow> bool" where
  "contains sub [] = (sub = [])"
| "contains sub (c # cs) = (prefix sub (c # cs) \<or> contains sub cs)"

text \<open>An f-string field \<^verbatim>\<open>{instruction}\<close>: \<open>str(None)\<close> is the word \<open>None\<close>.\<close>

fun format_field :: "string option \<Rightarrow> string" where
  "format_field None = ''None''"
| "format_field (Some s) = s"

section \<open>The prompt templates\<close>

text \<open>
  Each template is the triple-quoted literal of its branch, line by line, with the
  indentation of the source. A template with an interpolation point is cut there into
  the text before it and the text after it; \<^verbatim>\<open>{{\<close> and \<^verbatim>\<open>}}\<close> of an f-string are
  single braces.
\<close>

definition classify_user_prompt_head :: string where
  \<open>classify_user_prompt_head = concat
    [''\<newline>'',
     ''            Analyze the following user prompt: '']\<close>

definition classify_user_prompt_tail :: string where
  \<open>classify_user_prompt_tail = concat
    [''\<newline>'',
     ''\<newline>'',
     ''            User prompt types:\<newline>'',
     ''            - Type I (return True): User prompts with any specific descriptions\<newline>'',
     ''            Examples: \<newline>'',
     ''            * Color-based: "green objects"\<newline>'',
     ''            * Position-based: "objects from the right"\<newline>'',
     ''            * Property-based: "all cups"\<newline>'',
     ''            * Combination: "the red cup on the left"\<newline>'',
     ''\<newline>'',
     ''            - Type II (return False): Abstract prompts without any object descriptions\<newline>'',
     ''            Examples: "clear the table", "clean up", "remove everything"\<newline>'',
     ''\<newline>'',
     ''            Please determine:\<newline>'',
     ''            - Is this a Type I prompt? (True/False)\<newline>'',
     ''            - Provide your reasoning\<newline>'',
     ''\<newline>'',
     ''            Return format:\<newline>'',
     ''            True/False: your reasoning\<newline>'',
     ''\<newline>'',
     ''            Examples:\<newline>'',
     ''            - "grab the green cup" -> True: Contains specific object (cup) and property (green)\<newline>'',
     ''            - "clear the table" -> False: No specific object characteristics mentioned\<newline>'',
     ''            '']\<close>

definition decompose_user_prompt_head :: string where
  \<open>decompose_user_prompt_head = concat
    [''\<newline>'',
     ''            For user prompt: '']\<close>

definition decompose_user_prompt_tail :: string where
  \<open>decompose_user_prompt_tail = concat
    [''\<newline>'',
     ''            Process:\<newline>'',
     ''            1. Analyze the user prompt and image together:\<newline>'',
     ''            - Match user prompt descriptions with visible objects in the image\<newline>'',
     ''            - If a description (e.g., "green objects") matches multiple objects, include all matching objects\<newline>'',
     ''            - Verify each mentioned object actually exists in the image\<newline>'',
     ''\<newline>'',
     ''            2. Based on the robot arm's position (right edge of the screen) and table layout\<newline>'',
     ''            3. Determine the most efficient grasping sequence\<newline>'',
     ''            4. Generate a reordered list of objects to grasp\<newline>'',
     ''            \<newline>'',
     ''            Requirements:\<newline>'',
     ''            - Only include objects mentioned in the original user prompt\<newline>'',
     ''            - Keep position information for each object\<newline>'',
     ''            - Return as a list, ordered by grasping sequence\<newline>'',
     ''\<newline>'',
     ''            Expected output format:\<newline>'',
     ''            ["object with position 1", "object with position 2", ...]\<newline>'',
     ''            '']\<close>

definition generate_instruction_text :: string where
  \<open>generate_instruction_text = concat
    [''\<newline>'',
     ''            Analyze the current desktop layout and select the most suitable object to grasp, considering the following factors:\<newline>'',
     ''\<newline>'',
     ''            Grasping Strategy:\<newline>'',
     ''            1. The robotic arm is positioned on the far right (outside the frame)\<newline>'',
     ''            2. Grasping Priority Order:\<newline>'',
     ''               - Prioritize objects on the right to avoid knocking over other objects during later operations\<newline>'',
     ''               - Then consider objects in the middle\<newline>'',
     ''               - Finally, consider objects on the left\<newline>'',
     ''            3. Accessibility Analysis:\<newline>'',
     ''               - Relative positions between objects\<newline>'',
     ''               - Potential obstacles\<newline>'',
     ''               - Whether the grasping path might interfere with other objects\<newline>'',
     ''\<newline>'',
     ''            Please provide your response in the following JSON format:\<newline>'',
     ''            {\<newline>'',
     ''                "analysis": {\<newline>'',
     ''                    "priority_consideration": "Explanation of why this object has priority",\<newline>'',
     ''                    "accessibility": "Analysis of object's accessibility",\<newline>'',
     ''                    "risk_assessment": "Potential risks in grasping this object"\<newline>'',
     ''                },\<newline>'',
     ''                "target": "A comprehensive description of the target object \<newline>'',
     ''                (e.g., 'the blue cube on the far right of the desktop, next to the red cylinder')"\<newline>'',
     ''            }\<newline>'',
     ''\<newline>'',
     ''            Ensure the output is in valid JSON format.\<newline>'',
     ''            Note: The 'target' field should ONLY contain the object's color, shape, and position in a natural, flowing sentence. Do not include any analysis or reasoning in this field.\<newline>'',
     ''            '']\<close>

definition mark_bounding_box_head :: string where
  \<open>mark_bounding_box_head = concat
    [''\<newline>'',
     ''            Analyze the image and identify the best matching object with the description: '']\<close>

definition mark_bounding_box_tail :: string where
  \<open>mark_bounding_box_tail = concat
    [''.\<newline>'',
     ''            Instructions for object analysis:\<newline>'',
     ''            1. Select ONE object that best matches the description\<newline>'',
     ''            2. For the selected object, provide:\<newline>'',
     ''            - A concise label, object name (3-4 words max)\<newline>'',
     ''            - A detailed description (position, color, shape, context)\<newline>'',
     ''            - Accurate bbox coordinates\<newline>'',
     ''\<newline>'',
     ''            Required JSON format with an example:\<newline>'',
     ''            ```json\<newline>'',
     ''            {\<newline>'',
     ''                "bbox_2d": [x1, y1, x2, y2],\<newline>'',
     ''                "label": "green cup",  # Keep this very brief (3-4 words)\<newline>'',
     ''                "description": "A cylindrical green ceramic cup located on the right side of the wooden table, next to the laptop"  # Detailed description\<newline>'',
     ''            }\<newline>'',
     ''            ```\<newline>'',
     ''\<newline>'',
     ''            Critical requirements:\<newline>'',
     ''            - Return EXACTLY ONE object\<newline>'',
     ''            - "label": Must be brief (3-4 words) for quick reference\<newline>'',
     ''            - "description": Must be detailed and include spatial context\<newline>'',
     ''            - Use single JSON object format, not an array\<newline>'',
     ''            - Ensure bbox coordinates are within image boundaries\<newline>'',
     ''            '']\<close>

definition check_grasp_success_text :: string where
  \<open>check_grasp_success_text = concat
    [''\<newline>'',
     ''            Analyze the image and determine if the robotic arm has successfully grasped an object:\<newline>'',
     ''            1. Observe the spatial relationship between the robotic hand and the object\<newline>'',
     ''            2. Output format: explain your reasoning, then conclude with a boolean value (True=grasped, False=not grasped)\<newline>'',
     ''            '']\<close>

definition check_instruction_complete_head :: string where
  \<open>check_instruction_complete_head = concat
    [''\<newline>'',
     ''            Please check whether '']\<close>

definition check_instruction_complete_tail :: string where
  \<open>check_instruction_complete_tail = concat
    ['' exists on the desktop. If it does not exist, output True; otherwise, output False.\<newline>'',
     ''            '']\<close>

definition check_user_prompt_complete_text :: string where
  \<open>check_user_prompt_complete_text = concat
    [''\<newline>'',
     ''            Please analyze the table in the image:\<newline>'',
     ''\<newline>'',
     ''            Requirements:\<newline>'',
     ''            - Only detect physical objects with noticeable height/thickness (3D objects)\<newline>'',
     ''            - Exclude from consideration:\<newline>'',
     ''            * Flat items (papers, tablecloths, mats)\<newline>'',
     ''            * Light projections\<newline>'',
     ''            * Shadows\<newline>'',
     ''            * Surface patterns or textures\<newline>'',
     ''\<newline>'',
     ''            Return format:\<newline>'',
     ''            - True: if the table is empty of 3D objects\<newline>'',
     ''            - False: if there are any 3D objects, followed by their names\<newline>'',
     ''\<newline>'',
     ''            Example responses:\<newline>'',
     ''            True  (for empty table)\<newline>'',
     ''            False: cup, bottle, plate  (for table with objects)\<newline>'',
     ''            '']\<close>

section \<open>Building the conversation\<close>

text \<open>
  Lines 30 to 170: the chain of comparisons on \<open>task_name\<close> that chooses the prompt, and
  the \<open>ValueError\<close> of its last branch.
\<close>

definition build_prompt :: "string \<Rightarrow> string option \<Rightarrow> error + string" where
  "build_prompt task_name instruction =
     (if task_name = ''classify_user_prompt'' then
        Inr (classify_user_prompt_head @ format_field instruction @ classify_user_prompt_tail)
      else if task_name = ''decompose_user_prompt'' then
        Inr (decompose_user_prompt_head @ format_field instruction @ decompose_user_prompt_tail)
      else if task_name = ''generate_instruction'' then
        Inr generate_instruction_text
      else if task_name = ''mark_bounding_box'' then
        Inr (mark_bounding_box_head @ format_field instruction @ mark_bounding_box_tail)
      else if task_name = ''check_grasp_success'' then
        Inr check_grasp_success_text
      else if task_name = ''check_instruction_complete'' then
        Inr (check_instruction_complete_head @ format_field instruction
               @ check_instruction_complete_tail)
      else if task_name = ''check_user_prompt_complete'' then
        Inr check_user_prompt_complete_text
      else Inl (ValueError (NotValidTaskName task_name)))"

text \<open>The seven names the chain accepts.\<close>

definition task_names :: "string list" where
  "task_names =
     [''classify_user_prompt'', ''decompose_user_prompt'', ''generate_instruction'',
      ''mark_bounding_box'', ''check_grasp_success'', ''check_instruction_complete'',
      ''check_user_prompt_complete'']"

text \<open>
  Lines 172 to 186: two messages, each a role and a list of content parts; the image part
  is appended to the user message when \<open>frame_path\<close> is not \<open>None\<close>.
\<close>

datatype content_part = Text string | Image_url string

record message =
  role :: string
  content :: "content_part list"

definition build_messages :: "string \<Rightarrow> string option \<Rightarrow> message list" where
  "build_messages prompt frame_path =
     [\<lparr>role = ''system'', content = [Text ''You are a helpful assistant.'']\<rparr>,
      \<lparr>role = ''user'',
       content = [Text prompt] @ (case frame_path of None \<Rightarrow> [] | Some url \<Rightarrow> [Image_url url])\<rparr>]"

definition conversation :: "string \<Rightarrow> string option \<Rightarrow> string option \<Rightarrow> error + message list" where
  "conversation task_name frame_path instruction =
     bind (build_prompt task_name instruction) (\<lambda>prompt. Inr (build_messages prompt frame_path))"

section \<open>Decoding the response\<close>

text \<open>
  \<open>parse_json\<close> and \<open>extract_list\<close> are imported from \<open>planner.utils\<close> and
  \<open>json_repair.loads\<close> from a library; the decoder is modelled for any three such
  functions, each returning a value or raising.
\<close>

record helpers =
  parse_json :: "string \<Rightarrow> exn + string"
  extract_list :: "string \<Rightarrow> exn + pyval"
  json_repair_loads :: "string \<Rightarrow> exn + pyval"

text \<open>
  The subscript \<^verbatim>\<open>obj[key]\<close> with a string key: a dictionary looks the key up and raises
  \<open>KeyError\<close> when it is missing; a list or a string takes no string index and the other
  values no subscript at all, both a \<open>TypeError\<close>.
\<close>

fun getitem :: "pyval \<Rightarrow> string \<Rightarrow> error + pyval" where
  "getitem (PDict kvs) key =
     (case map_of kvs key of Some v \<Rightarrow> Inr v | None \<Rightarrow> Inl (KeyError key))"
| "getitem v key = Inl TypeError"

text \<open>Lines 284 to 317, from the response text on.\<close>

definition decode :: "helpers \<Rightarrow> string \<Rightarrow> string \<Rightarrow> error + pyval" where
  "decode h task_name response =
     (let response_lower = lower response in
      if task_name = ''classify_user_prompt'' then
        (if contains ''true'' response_lower then Inr (PStr ''TypeI'')
         else if contains ''false'' response_lower then Inr (PStr ''TypeII'')
         else Inl (ValueError (WrongFormat response)))
      else if task_name = ''decompose_user_prompt'' then
        bind (call (extract_list h response)) (\<lambda>list_output.
          if is_list list_output then Inr list_output
          else Inl (ValueError (NotValidList list_output)))
      else if task_name = ''generate_instruction'' then
        bind (call (parse_json h response)) (\<lambda>generate_task_str.
        bind (call (json_repair_loads h generate_task_str)) (\<lambda>generate_task_json.
        bind (getitem generate_task_json ''target'') (\<lambda>generate_task.
          if is_str generate_task then Inr generate_task
          else Inl (ValueError (NotValidString generate_task)))))
      else if task_name = ''mark_bounding_box'' then
        bind (call (parse_json h response)) (\<lambda>bbox_str.
        bind (call (json_repair_loads h bbox_str)) (\<lambda>bbox_json. Inr bbox_json))
      else
        (if contains ''true'' response_lower then Inr (PBool True)
         else if contains ''false'' response_lower then Inr (PBool False)
         else Inl (ValueError (NoValidBoolean response))))"

section \<open>The request\<close>

text \<open>
  The planner object holds the model identifier and the client. A call to
  \<open>client.chat.completions.create\<close> sends one request; the requests sent so far are the
  state the method acts on, and the service may answer from them. A completion is read
  through \<^verbatim>\<open>choices[0].message.content\<close>, so it is the list of the contents of its choices,
  each a string or \<open>None\<close>.
\<close>

record request =
  req_model :: string
  req_max_completion_tokens :: int
  req_messages :: "message list"

type_synonym chat_completion = "string option list"

record planner =
  model :: string
  create :: "request list \<Rightarrow> request \<Rightarrow> exn + chat_completion"

fun message_content :: "chat_completion \<Rightarrow> error + string" where
  "message_content [] = Inl IndexError"
| "message_content (None # cs) = Inl AttributeError"
| "message_content (Some response # cs) = Inr response"

definition request_task ::
  "planner \<Rightarrow> helpers \<Rightarrow> string \<Rightarrow> string option \<Rightarrow> string option \<Rightarrow> int \<Rightarrow> request list
     \<Rightarrow> (error + pyval) \<times> request list" where
  "request_task self h task_name frame_path instruction max_token sent =
     (case conversation task_name frame_path instruction of
        Inl e \<Rightarrow> (Inl e, sent)
      | Inr messages \<Rightarrow>
          (let req = \<lparr>req_model = model self, req_max_completion_tokens = max_token,
                      req_messages = messages\<rparr>
           in (bind (call (create self sent req)) (\<lambda>chat_completion.
               bind (message_content chat_completion) (\<lambda>response.
                 decode h task_name response)),
               sent @ [req])))"

section \<open>Sample collaborators\<close>

text \<open>
  Modelled from the spec: \<open>planner.utils.parse_json\<close>, \<open>planner.utils.extract_list\<close> and
  \<open>json_repair.loads\<close> are not in the source tree. To run the decoder on sample responses,
  \<open>sample_helpers\<close> fixes one instance of them by table, inside the contracts the
  specification gives the three primitives:
  \<^item> the JSON extractor returns a text that is one JSON value, without a code fence, as
    it is;
  \<^item> the list extractor returns the parsed sequence of strings for a list literal of
    strings, and for the specification's example \<open>no list here\<close>, where it finds no list,
    the value \<open>None\<close>: a value that is no list, which is what the test of line 295 and the
    \<open>ValueError\<close> of line 298 provide for;
  \<^item> the parser returns the parsed value of each listed JSON text.
  On a text outside its table the list extractor and the parser raise, so no result is
  drawn from a text that is not listed.
\<close>

definition sample_helpers :: helpers where
  \<open>sample_helpers =
     \<lparr>parse_json = (\<lambda>text. Inr text),
      extract_list = (\<lambda>text.
        case map_of
          [(''["red cup on left", "blue bowl on right"]'',
              PList [PStr ''red cup on left'', PStr ''blue bowl on right'']),
           (''no list here'', PNone)] text of
          Some v \<Rightarrow> Inr v
        | None \<Rightarrow> Inl ''no sample for this text''),
      json_repair_loads = (\<lambda>text.
        case map_of
          [(''{"analysis": {}, "target": "the blue cube"}'',
              PDict [(''analysis'', PDict []), (''target'', PStr ''the blue cube'')]),
           (''{"analysis": {}, "target": 42}'',
              PDict [(''analysis'', PDict []), (''target'', PInt 42)]),
           (''{"analysis": {}}'', PDict [(''analysis'', PDict [])]),
           (''{"bbox_2d": [1, 2, 3, 4], "label": "green cup", "description": "a cup"}'',
              PDict [(''bbox_2d'', PList [PInt 1, PInt 2, PInt 3, PInt 4]),
                     (''label'', PStr ''green cup''), (''description'', PStr ''a cup'')]),
           (''[]'', PList [])] text of
          Some v \<Rightarrow> Inr v
        | None \<Rightarrow> Inl ''no sample for this text'')\<rparr>\<close>

text \<open>A planner whose service answers every request with the one choice \<open>True\<close>.\<close>

definition sample_planner :: planner where
  "sample_planner = \<lparr>model = ''sample-model'', create = (\<lambda>sent req. Inr [Some ''True''])\<rparr>"

section \<open>The shapes the specification names\<close>



text \<open>
  The specification's bounding-box record: an object with four numeric coordinates under
  \<open>bbox_2d\<close>, a string \<open>label\<close> and a string \<open>description\<close>.
\<close>

fun spec_bounding_box_record :: "pyval \<Rightarrow> bool" where
  "spec_bounding_box_record (PDict kvs) =
     (case (map_of kvs ''bbox_2d'', map_of kvs ''label'', map_of kvs ''description'') of
        (Some (PList cs), Some (PStr l), Some (PStr d)) \<Rightarrow>
          length cs = 4 \<and> list_all is_number cs
      | _ \<Rightarrow> False)"
| "spec_bounding_box_record v = False"

text \<open>
  A case-insensitive occurrence of a lower-case word: some piece of the text lowers to
  the word.
\<close>

definition occurs_ignoring_case :: "string \<Rightarrow> string \<Rightarrow> bool" where
  "occurs_ignoring_case word text =
     (\<exists>pre mid post. text = pre @ mid @ post \<and> lower mid = word)"

section \<open>Facts about the building blocks\<close>

text \<open>
  The substring test is the library's \<open>sublist\<close>, and on a lowered text it finds the
  case-insensitive occurrences.
\<close>

lemma contains_iff_sublist: "contains sub s \<longleftrightarrow> sublist sub s"
  by (induction s) (auto simp: sublist_Cons_right)

lemma map_eq_append_split:
  "map f xs = ys @ zs \<Longrightarrow> \<exists>us vs. xs = us @ vs \<and> map f us = ys \<and> map f vs = zs"
  by (auto simp: map_eq_append_conv)

lemma sublist_lower_iff: "sublist word (lower text) \<longleftrightarrow> occurs_ignoring_case word text"
proof
  assume "sublist word (lower text)"
  then obtain ps ss where "map lower_char text = ps @ (word @ ss)"
    by (auto simp: sublist_def lower_def)
  from map_eq_append_split [OF this]
  obtain pre rest where 1: "text = pre @ rest" and 2: "map lower_char rest = word @ ss"
    by auto
  from map_eq_append_split [OF 2]
  obtain mid post where 3: "rest = mid @ post" and 4: "map lower_char mid = word"
    by auto
  from 1 3 4 show "occurs_ignoring_case word text"
    unfolding occurs_ignoring_case_def lower_def by blast
next
  assume "occurs_ignoring_case word text"
  then obtain pre mid post where "text = pre @ mid @ post" and "lower mid = word"
    by (auto simp: occurs_ignoring_case_def)
  then have "lower text = lower pre @ word @ lower post"
    by (auto simp: lower_def)
  then show "sublist word (lower text)"
    unfolding sublist_def by blast
qed

lemma contains_lower_iff: "contains word (lower text) \<longleftrightarrow> occurs_ignoring_case word text"
  by (simp add: contains_iff_sublist sublist_lower_iff)

lemma bind_eq_Inl: "bind m f = Inl e \<longleftrightarrow> m = Inl e \<or> (\<exists>v. m = Inr v \<and> f v = Inl e)"
  by (cases m) auto

lemma bind_eq_Inr: "bind m f = Inr r \<longleftrightarrow> (\<exists>v. m = Inr v \<and> f v = Inr r)"
  by (cases m) auto

lemma call_eq_Inl: "call m = Inl e \<longleftrightarrow> (\<exists>x. m = Inl x \<and> e = Raised x)"
  by (cases m) auto

lemma call_eq_Inr: "call m = Inr v \<longleftrightarrow> m = Inr v"
  by (cases m) auto

lemma getitem_eq_Inl: "getitem v key = Inl e \<Longrightarrow> e = KeyError key \<or> e = TypeError"
  by (cases v) (auto split: option.splits)

lemma message_content_eq_Inl: "message_content c = Inl e \<Longrightarrow> e = IndexError \<or> e = AttributeError"
  by (cases c rule: message_content.cases) auto

lemma decode_not_task_name: "decode h task_name response \<noteq> Inl (ValueError (NotValidTaskName name))"
  by (auto simp: decode_def Let_def bind_eq_Inl call_eq_Inl dest: getitem_eq_Inl split: if_splits)

lemma build_prompt_unknown:
  "task_name \<notin> set task_names \<Longrightarrow> build_prompt task_name instruction = Inl (ValueError (NotValidTaskName task_name))"
  by (simp add: build_prompt_def task_names_def)

lemma build_prompt_known:
  "task_name \<in> set task_names \<Longrightarrow> \<exists>prompt. build_prompt task_name instruction = Inr prompt"
  by (auto simp: build_prompt_def task_names_def)

section \<open>The boolean answers\<close>

lemma boolean_branch:
  "task_name \<in> {''check_grasp_success'', ''check_instruction_complete'', ''check_user_prompt_complete''} \<Longrightarrow>
   decode h task_name response =
     (if contains ''true'' (lower response) then Inr (PBool True)
      else if contains ''false'' (lower response) then Inr (PBool False)
      else Inl (ValueError (NoValidBoolean response)))"
  by (auto simp: decode_def Let_def)

lemma classify_branch:
  "decode h ''classify_user_prompt'' response =
     (if contains ''true'' (lower response) then Inr (PStr ''TypeI'')
      else if contains ''false'' (lower response) then Inr (PStr ''TypeII'')
      else Inl (ValueError (WrongFormat response)))"
  by (simp add: decode_def Let_def)

lemma decompose_branch:
  "decode h ''decompose_user_prompt'' response =
     bind (call (extract_list h response)) (\<lambda>list_output.
       if is_list list_output then Inr list_output
       else Inl (ValueError (NotValidList list_output)))"
  by (simp add: decode_def)

lemma generate_branch:
  "decode h ''generate_instruction'' response =
     bind (call (parse_json h response)) (\<lambda>generate_task_str.
     bind (call (json_repair_loads h generate_task_str)) (\<lambda>generate_task_json.
     bind (getitem generate_task_json ''target'') (\<lambda>generate_task.
       if is_str generate_task then Inr generate_task
       else Inl (ValueError (NotValidString generate_task)))))"
  by (simp add: decode_def)

lemma mark_branch:
  "decode h ''mark_bounding_box'' response =
     bind (call (parse_json h response)) (\<lambda>bbox_str.
     bind (call (json_repair_loads h bbox_str)) (\<lambda>bbox_json. Inr bbox_json))"
  by (simp add: decode_def)

text \<open>
  Claim C3. For each of the four task kinds decoded as a boolean (\<open>classify_user_prompt\<close>,
  \<open>check_grasp_success\<close>, \<open>check_instruction_complete\<close>, \<open>check_user_prompt_complete\<close>)
  and every response whose lowered text has both \<open>true\<close> and \<open>false\<close> as substrings, the
  decoder gives the true-valued result: \<open>TypeI\<close> for \<open>classify_user_prompt\<close>, \<open>True\<close> for
  the other three. The positions of the two words play no part, so this holds when
  \<open>false\<close> comes first.
\<close>

theorem true_precedes_false:
  assumes "task_name \<in> {''classify_user_prompt'', ''check_grasp_success'',
             ''check_instruction_complete'', ''check_user_prompt_complete''}"
    and "sublist ''true'' (lower response)"
    and "sublist ''false'' (lower response)"
  shows "decode h task_name response =
           Inr (if task_name = ''classify_user_prompt'' then PStr ''TypeI'' else PBool True)"
proof (cases "task_name = ''classify_user_prompt''")
  case True
  with assms(2) show ?thesis
    by (simp add: classify_branch contains_iff_sublist)
next
  case False
  with assms(1) have "task_name \<in> {''check_grasp_success'', ''check_instruction_complete'',
      ''check_user_prompt_complete''}"
    by simp
  from boolean_branch [OF this] assms(2) False show ?thesis
    by (simp add: contains_iff_sublist)
qed

theorem true_precedes_false_witness:
  "sublist ''true'' (lower ''False, not TRUE'') \<and> sublist ''false'' (lower ''False, not TRUE'')
   \<and> decode sample_helpers ''classify_user_prompt'' ''False, not TRUE'' = Inr (PStr ''TypeI'')
   \<and> decode sample_helpers ''check_user_prompt_complete'' ''False, not TRUE'' = Inr (PBool True)"
proof -
  have l: "lower ''False, not TRUE'' = ''false, not true''"
    by (simp add: lower_def lower_char_def)
  have t: "sublist ''true'' (lower ''False, not TRUE'')"
    unfolding l contains_iff_sublist [symmetric] by simp
  have f: "sublist ''false'' (lower ''False, not TRUE'')"
    unfolding l contains_iff_sublist [symmetric] by simp
  from t f
    true_precedes_false [of "''classify_user_prompt''" "''False, not TRUE''" sample_helpers]
    true_precedes_false [of "''check_user_prompt_complete''" "''False, not TRUE''" sample_helpers]
  show ?thesis by simp
qed

text \<open>
  Claim C4. Decoding \<open>classify_user_prompt\<close> looks for a case-insensitive occurrence of
  \<open>true\<close>, then of \<open>false\<close>: it returns \<open>TypeI\<close> for the first, \<open>TypeII\<close> for the second,
  and raises the \<open>ValueError\<close> of a wrong format when there is neither. The three checks
  follow the same rule and return \<open>True\<close> or \<open>False\<close>, raising the \<open>ValueError\<close> of a
  missing boolean value when there is neither.
\<close>

theorem boolean_decoding_rule:
  "decode h ''classify_user_prompt'' response =
     (if occurs_ignoring_case ''true'' response then Inr (PStr ''TypeI'')
      else if occurs_ignoring_case ''false'' response then Inr (PStr ''TypeII'')
      else Inl (ValueError (WrongFormat response)))
   \<and> (\<forall>task_name \<in> {''check_grasp_success'', ''check_instruction_complete'',
                       ''check_user_prompt_complete''}.
        decode h task_name response =
          (if occurs_ignoring_case ''true'' response then Inr (PBool True)
           else if occurs_ignoring_case ''false'' response then Inr (PBool False)
           else Inl (ValueError (NoValidBoolean response))))"
  using boolean_branch [of _ h response]
  by (simp add: classify_branch contains_lower_iff)

theorem boolean_decoding_rule_witness:
  "decode sample_helpers ''classify_user_prompt'' ''True: contains a color'' = Inr (PStr ''TypeI'')
   \<and> decode sample_helpers ''classify_user_prompt'' ''False: no specifics'' = Inr (PStr ''TypeII'')
   \<and> decode sample_helpers ''classify_user_prompt'' ''unclear''
        = Inl (ValueError (WrongFormat ''unclear''))
   \<and> decode sample_helpers ''check_grasp_success'' ''The hand holds it. True'' = Inr (PBool True)
   \<and> decode sample_helpers ''check_user_prompt_complete'' ''False: cup, bottle'' = Inr (PBool False)
   \<and> decode sample_helpers ''check_instruction_complete'' ''unclear''
        = Inl (ValueError (NoValidBoolean ''unclear''))"
  using boolean_decoding_rule [of sample_helpers "''True: contains a color''"]
    boolean_decoding_rule [of sample_helpers "''False: no specifics''"]
    boolean_decoding_rule [of sample_helpers "''unclear''"]
    boolean_decoding_rule [of sample_helpers "''The hand holds it. True''"]
    boolean_decoding_rule [of sample_helpers "''False: cup, bottle''"]
  by (simp add: contains_lower_iff [symmetric] lower_def lower_char_def)

section \<open>The list and the JSON answers\<close>

text \<open>
  Whatever the extractor is, the decoder returns a list it gets as it is and turns any
  other value into the \<open>ValueError\<close> of an invalid list.
\<close>

lemma decompose_list_or_error:
  "(extract_list h response = Inr (PList xs) \<longrightarrow>
      decode h ''decompose_user_prompt'' response = Inr (PList xs))
   \<and> (extract_list h response = Inr v \<and> \<not> is_list v \<longrightarrow>
      decode h ''decompose_user_prompt'' response = Inl (ValueError (NotValidList v)))"
  by (simp add: decompose_branch)



text \<open>
  Where the claim about \<open>generate_instruction\<close> fails as stated: a parsed object without
  the key \<open>target\<close> never reaches the test on the type of the field. The subscript raises
  \<open>KeyError\<close>, not the \<open>ValueError\<close> the decoder raises for a field of the wrong type.
\<close>

theorem generate_instruction_missing_target_counterexample:
  \<open>json_repair_loads sample_helpers ''{"analysis": {}}'' = Inr (PDict [(''analysis'', PDict [])])
   \<and> map_of [(''analysis'', PDict [])] ''target'' = None
   \<and> decode sample_helpers ''generate_instruction'' ''{"analysis": {}}'' = Inl (KeyError ''target'')
   \<and> decode sample_helpers ''generate_instruction'' ''{"analysis": {}}''
       \<noteq> Inl (ValueError (NotValidString PNone))\<close>
  by (simp add: decode_def sample_helpers_def)

text \<open>
  Claim C2, as the code has it. When the JSON extractor and the parser succeed and the
  parsed value is an object: if \<open>target\<close> is bound to a string, the decoder returns that
  string; if \<open>target\<close> is bound to a value that is not a string, it raises the
  \<open>ValueError\<close> of an invalid string, carrying the value; if the object has no \<open>target\<close>,
  the subscript raises \<open>KeyError\<close> naming \<open>target\<close>.
\<close>

theorem decode_generate_instruction:
  assumes "parse_json h response = Inr generate_task_str"
    and "json_repair_loads h generate_task_str = Inr (PDict kvs)"
  shows "(map_of kvs ''target'' = Some (PStr s) \<longrightarrow>
            decode h ''generate_instruction'' response = Inr (PStr s))
       \<and> (map_of kvs ''target'' = Some v \<and> \<not> is_str v \<longrightarrow>
            decode h ''generate_instruction'' response = Inl (ValueError (NotValidString v)))
       \<and> (map_of kvs ''target'' = None \<longrightarrow>
            decode h ''generate_instruction'' response = Inl (KeyError ''target''))"
  using assms by (simp add: decode_def)

theorem decode_generate_instruction_witness:
  \<open>decode sample_helpers ''generate_instruction'' ''{"analysis": {}, "target": "the blue cube"}''
     = Inr (PStr ''the blue cube'')
   \<and> decode sample_helpers ''generate_instruction'' ''{"analysis": {}, "target": 42}''
     = Inl (ValueError (NotValidString (PInt 42)))
   \<and> decode sample_helpers ''generate_instruction'' ''{"analysis": {}}''
     = Inl (KeyError ''target'')\<close>
proof -
  let ?a = \<open>''{"analysis": {}, "target": "the blue cube"}''\<close>
  let ?b = \<open>''{"analysis": {}, "target": 42}''\<close>
  let ?c = \<open>''{"analysis": {}}''\<close>
  have pa: "parse_json sample_helpers ?a = Inr ?a" and pb: "parse_json sample_helpers ?b = Inr ?b"
    and pc: "parse_json sample_helpers ?c = Inr ?c"
    by (simp_all add: sample_helpers_def)
  have la: "json_repair_loads sample_helpers ?a
      = Inr (PDict [(''analysis'', PDict []), (''target'', PStr ''the blue cube'')])"
    by (simp add: sample_helpers_def)
  have lb: "json_repair_loads sample_helpers ?b
      = Inr (PDict [(''analysis'', PDict []), (''target'', PInt 42)])"
    by (simp add: sample_helpers_def)
  have lc: "json_repair_loads sample_helpers ?c = Inr (PDict [(''analysis'', PDict [])])"
    by (simp add: sample_helpers_def)
  from decode_generate_instruction [OF pa la, of "''the blue cube''"]
    decode_generate_instruction [OF pb lb, of _ "PInt 42"]
    decode_generate_instruction [OF pc lc]
  show ?thesis by simp
qed

text \<open>
  Where the claim about the shape of the results fails as stated: for
  \<open>mark_bounding_box\<close> the decoder returns what the parser produced, with no test at all.
  An answer that is an empty JSON array is returned as the empty list, which is no
  bounding-box record.
\<close>

theorem mark_bounding_box_unvalidated_counterexample:
  "decode sample_helpers ''mark_bounding_box'' ''[]'' = Inr (PList [])
   \<and> \<not> spec_bounding_box_record (PList [])"
  by (simp add: decode_def sample_helpers_def)

text \<open>
  Claim C5, as the code has it. A value returned by the decoder has the shape its task
  kind fixes for six of the seven kinds: one of the two labels \<open>TypeI\<close> and \<open>TypeII\<close> for
  \<open>classify_user_prompt\<close>, a list (the one the extractor returned) for
  \<open>decompose_user_prompt\<close>, a string for \<open>generate_instruction\<close>, and a boolean for the
  three checks. For \<open>mark_bounding_box\<close> the value is exactly what the parser returned for
  the extracted text, of whatever shape.
\<close>

theorem decode_result_shape:
  assumes "decode h task_name response = Inr v"
  shows "(task_name = ''classify_user_prompt'' \<longrightarrow> v = PStr ''TypeI'' \<or> v = PStr ''TypeII'')
       \<and> (task_name = ''decompose_user_prompt'' \<longrightarrow> is_list v \<and> extract_list h response = Inr v)
       \<and> (task_name = ''generate_instruction'' \<longrightarrow> is_str v)
       \<and> (task_name = ''mark_bounding_box'' \<longrightarrow>
            (\<exists>bbox_str. parse_json h response = Inr bbox_str \<and> json_repair_loads h bbox_str = Inr v))
       \<and> (task_name \<in> {''check_grasp_success'', ''check_instruction_complete'',
                         ''check_user_prompt_complete''} \<longrightarrow> is_bool v)"
proof (intro conjI impI)
  assume "task_name = ''classify_user_prompt''"
  with assms have "decode h ''classify_user_prompt'' response = Inr v" by simp
  then show "v = PStr ''TypeI'' \<or> v = PStr ''TypeII''"
    unfolding classify_branch by (auto split: if_splits)
next
  assume "task_name = ''decompose_user_prompt''"
  with assms have "decode h ''decompose_user_prompt'' response = Inr v" by simp
  then have "is_list v \<and> call (extract_list h response) = Inr v"
    unfolding decompose_branch by (auto simp: bind_eq_Inr split: if_splits)
  then show "is_list v" and "extract_list h response = Inr v"
    by (simp_all add: call_eq_Inr)
next
  assume "task_name = ''generate_instruction''"
  with assms have "decode h ''generate_instruction'' response = Inr v" by simp
  then show "is_str v"
    unfolding generate_branch by (auto simp: bind_eq_Inr split: if_splits)
next
  assume "task_name = ''mark_bounding_box''"
  with assms have "decode h ''mark_bounding_box'' response = Inr v" by simp
  then show "\<exists>bbox_str. parse_json h response = Inr bbox_str \<and> json_repair_loads h bbox_str = Inr v"
    unfolding mark_branch by (auto simp: bind_eq_Inr call_eq_Inr)
next
  assume t: "task_name \<in> {''check_grasp_success'', ''check_instruction_complete'',
                         ''check_user_prompt_complete''}"
  from assms show "is_bool v"
    unfolding boolean_branch [OF t] by (auto split: if_splits)
qed

theorem decode_result_shape_witness:
  \<open>is_list (PList [PStr ''red cup on left'', PStr ''blue bowl on right''])
   \<and> (\<exists>bbox_str. parse_json sample_helpers ''[]'' = Inr bbox_str
         \<and> json_repair_loads sample_helpers bbox_str = Inr (PList []))
   \<and> is_bool (PBool True)\<close>
proof -
  have 1: \<open>decode sample_helpers ''decompose_user_prompt''
        ''["red cup on left", "blue bowl on right"]''
      = Inr (PList [PStr ''red cup on left'', PStr ''blue bowl on right''])\<close>
    by (simp add: decode_def sample_helpers_def)
  have 2: "decode sample_helpers ''mark_bounding_box'' ''[]'' = Inr (PList [])"
    by (simp add: decode_def sample_helpers_def)
  have 3: "decode sample_helpers ''check_grasp_success'' ''True'' = Inr (PBool True)"
    by (simp add: decode_def lower_def lower_char_def)
  from decode_result_shape [OF 1] decode_result_shape [OF 2] decode_result_shape [OF 3]
  show ?thesis by simp
qed

section \<open>The conversation\<close>

lemma template_nonempty:
  "classify_user_prompt_head \<noteq> []" "decompose_user_prompt_head \<noteq> []"
  "generate_instruction_text \<noteq> []" "mark_bounding_box_head \<noteq> []"
  "check_grasp_success_text \<noteq> []" "check_instruction_complete_head \<noteq> []"
  "check_user_prompt_complete_text \<noteq> []"
  by (simp_all add: classify_user_prompt_head_def decompose_user_prompt_head_def
      generate_instruction_text_def mark_bounding_box_head_def check_grasp_success_text_def
      check_instruction_complete_head_def check_user_prompt_complete_text_def)

lemma build_prompt_nonempty: "build_prompt task_name instruction \<noteq> Inr []"
  by (simp add: build_prompt_def template_nonempty)

lemma conversation_known:
  "build_prompt task_name instruction = Inr prompt \<Longrightarrow>
   conversation task_name frame_path instruction = Inr (build_messages prompt frame_path)"
  by (simp add: conversation_def)

lemma conversation_unknown:
  "task_name \<notin> set task_names \<Longrightarrow>
   conversation task_name frame_path instruction = Inl (ValueError (NotValidTaskName task_name))"
  by (simp add: conversation_def build_prompt_unknown)

text \<open>
  Claim C7. For each of the seven task names the conversation is a system message
  whose one text part is exactly \<open>You are a helpful assistant.\<close>, followed by a user
  message whose first part is the prompt text, and the prompt text is not empty. (The
  image part follows the text when a frame path is given.)
\<close>

theorem conversation_turns:
  assumes "task_name \<in> set task_names"
  shows "\<exists>prompt. prompt \<noteq> []
           \<and> build_prompt task_name instruction = Inr prompt
           \<and> conversation task_name frame_path instruction =
               Inr [\<lparr>role = ''system'', content = [Text ''You are a helpful assistant.'']\<rparr>,
                    \<lparr>role = ''user'',
                     content = Text prompt
                       # (case frame_path of None \<Rightarrow> [] | Some url \<Rightarrow> [Image_url url])\<rparr>]"
proof -
  from build_prompt_known [OF assms] obtain prompt
    where p: "build_prompt task_name instruction = Inr prompt" by blast
  with build_prompt_nonempty [of task_name instruction] have "prompt \<noteq> []" by auto
  with p conversation_known [OF p, of frame_path] show ?thesis
    by (auto simp: build_messages_def)
qed

theorem conversation_turns_witness:
  "''check_grasp_success'' \<in> set task_names
   \<and> (\<exists>prompt. prompt \<noteq> []
         \<and> conversation ''check_grasp_success'' (Some ''frame.png'') None =
             Inr [\<lparr>role = ''system'', content = [Text ''You are a helpful assistant.'']\<rparr>,
                  \<lparr>role = ''user'', content = [Text prompt, Image_url ''frame.png'']\<rparr>])"
  using conversation_turns [of "''check_grasp_success''" None "Some ''frame.png''"]
  by (auto simp: task_names_def)

text \<open>
  Claim C8. For each of the four task kinds whose template embeds the instruction
  (\<open>classify_user_prompt\<close>, \<open>decompose_user_prompt\<close>, \<open>mark_bounding_box\<close>,
  \<open>check_instruction_complete\<close>), the prompt is the text before the interpolation point,
  the formatted instruction, and the text after it. For the instruction \<open>None\<close> the
  formatted instruction is the word \<open>None\<close>, so the user turn carries that word at the
  interpolation point; nothing is omitted and nothing fails.
\<close>

theorem none_instruction_placeholder:
  "build_prompt ''classify_user_prompt'' instruction
     = Inr (classify_user_prompt_head @ format_field instruction @ classify_user_prompt_tail)
   \<and> build_prompt ''decompose_user_prompt'' instruction
     = Inr (decompose_user_prompt_head @ format_field instruction @ decompose_user_prompt_tail)
   \<and> build_prompt ''mark_bounding_box'' instruction
     = Inr (mark_bounding_box_head @ format_field instruction @ mark_bounding_box_tail)
   \<and> build_prompt ''check_instruction_complete'' instruction
     = Inr (check_instruction_complete_head @ format_field instruction
              @ check_instruction_complete_tail)
   \<and> format_field None = ''None''
   \<and> conversation ''classify_user_prompt'' frame_path None
     = Inr (build_messages (classify_user_prompt_head @ ''None'' @ classify_user_prompt_tail)
              frame_path)
   \<and> conversation ''decompose_user_prompt'' frame_path None
     = Inr (build_messages (decompose_user_prompt_head @ ''None'' @ decompose_user_prompt_tail)
              frame_path)
   \<and> conversation ''mark_bounding_box'' frame_path None
     = Inr (build_messages (mark_bounding_box_head @ ''None'' @ mark_bounding_box_tail)
              frame_path)
   \<and> conversation ''check_instruction_complete'' frame_path None
     = Inr (build_messages
              (check_instruction_complete_head @ ''None'' @ check_instruction_complete_tail)
              frame_path)"
  by (simp add: build_prompt_def conversation_def)

theorem none_instruction_placeholder_witness:
  "conversation ''check_instruction_complete'' None None =
     Inr [\<lparr>role = ''system'', content = [Text ''You are a helpful assistant.'']\<rparr>,
          \<lparr>role = ''user'', content = [Text (concat
            [''\<newline>'',
             ''            Please check whether None exists on the desktop. If it does not exist, output True; otherwise, output False.\<newline>'',
             ''            ''])]\<rparr>]"
  using none_instruction_placeholder [of None None]
  by (simp add: build_messages_def check_instruction_complete_head_def
      check_instruction_complete_tail_def)

text \<open>
  Claim C9. For \<open>generate_instruction\<close>, \<open>check_grasp_success\<close> and
  \<open>check_user_prompt_complete\<close> the instruction has no influence: with the same task
  name and frame path, any two instructions give the same prompt text and the same
  conversation.
\<close>

theorem instruction_unused:
  assumes "task_name \<in> {''generate_instruction'', ''check_grasp_success'',
             ''check_user_prompt_complete''}"
  shows "build_prompt task_name instruction = build_prompt task_name instruction'
       \<and> conversation task_name frame_path instruction
           = conversation task_name frame_path instruction'"
  using assms by (auto simp: conversation_def build_prompt_def)

theorem instruction_unused_witness:
  "conversation ''generate_instruction'' (Some ''frame.png'') None
     = conversation ''generate_instruction'' (Some ''frame.png'') (Some ''the red cup'')
   \<and> build_prompt ''check_user_prompt_complete'' (Some ''clear the table'')
     = build_prompt ''check_user_prompt_complete'' (Some ''grab the green cup'')"
  using instruction_unused [of "''generate_instruction''" None "Some ''the red cup''" "Some ''frame.png''"]
    instruction_unused [of "''check_user_prompt_complete''" "Some ''clear the table''"
      "Some ''grab the green cup''" None]
  by simp

section \<open>Requests and the service\<close>

lemma request_task_known:
  assumes "build_prompt task_name instruction = Inr prompt"
  shows "request_task self h task_name frame_path instruction max_token sent =
    (bind (call (create self sent \<lparr>req_model = model self, req_max_completion_tokens = max_token,
                      req_messages = build_messages prompt frame_path\<rparr>)) (\<lambda>chat_completion.
       bind (message_content chat_completion) (\<lambda>response. decode h task_name response)),
     sent @ [\<lparr>req_model = model self, req_max_completion_tokens = max_token,
                      req_messages = build_messages prompt frame_path\<rparr>])"
  by (simp add: request_task_def conversation_known [OF assms] Let_def)

text \<open>
  A request with one of the seven task names sends exactly one request to the service,
  whatever the service answers.
\<close>

lemma request_task_sends_one:
  assumes "task_name \<in> set task_names"
  shows "\<exists>req. snd (request_task self h task_name frame_path instruction max_token sent) = sent @ [req]"
proof -
  from build_prompt_known [OF assms] obtain prompt
    where "build_prompt task_name instruction = Inr prompt" by blast
  from request_task_known [OF this] show ?thesis by simp
qed

text \<open>
  Claim C6. For a task name outside the seven, \<open>request_task\<close> fails with the
  \<open>ValueError\<close> of an invalid task name, carrying the name. For a task name among the
  seven it never fails with that error, whatever the service and the helpers do.
\<close>

theorem unknown_task_kind:
  "(task_name \<notin> set task_names \<longrightarrow>
      fst (request_task self h task_name frame_path instruction max_token sent)
        = Inl (ValueError (NotValidTaskName task_name)))
   \<and> (task_name \<in> set task_names \<longrightarrow>
      (\<forall>name. fst (request_task self h task_name frame_path instruction max_token sent)
        \<noteq> Inl (ValueError (NotValidTaskName name))))"
proof (intro conjI impI allI)
  assume "task_name \<notin> set task_names"
  then show "fst (request_task self h task_name frame_path instruction max_token sent)
        = Inl (ValueError (NotValidTaskName task_name))"
    by (simp add: request_task_def conversation_unknown)
next
  fix name
  assume "task_name \<in> set task_names"
  from build_prompt_known [OF this] obtain prompt
    where "build_prompt task_name instruction = Inr prompt" by blast
  from request_task_known [OF this]
  show "fst (request_task self h task_name frame_path instruction max_token sent)
        \<noteq> Inl (ValueError (NotValidTaskName name))"
    by (auto simp: bind_eq_Inl call_eq_Inl decode_not_task_name dest: message_content_eq_Inl)
qed

theorem unknown_task_kind_witness:
  "''grasp_everything'' \<notin> set task_names
   \<and> fst (request_task sample_planner sample_helpers ''grasp_everything'' None None 218 [])
       = Inl (ValueError (NotValidTaskName ''grasp_everything''))
   \<and> ''check_grasp_success'' \<in> set task_names
   \<and> fst (request_task sample_planner sample_helpers ''check_grasp_success'' None None 218 [])
       \<noteq> Inl (ValueError (NotValidTaskName ''check_grasp_success''))"
  using unknown_task_kind [of "''grasp_everything''" sample_planner sample_helpers None None 218 "[]"]
    unknown_task_kind [of "''check_grasp_success''" sample_planner sample_helpers None None 218 "[]"]
  by (simp add: task_names_def)

text \<open>
  Claim C10. For a task name outside the seven, the failure comes from the choice of the
  prompt: no conversation is built, and the list of requests sent to the service is what
  it was before the call, so the service is never invoked.
\<close>

theorem no_request_on_unknown_task:
  assumes "task_name \<notin> set task_names"
  shows "conversation task_name frame_path instruction
           = Inl (ValueError (NotValidTaskName task_name))
       \<and> request_task self h task_name frame_path instruction max_token sent
           = (Inl (ValueError (NotValidTaskName task_name)), sent)"
  using assms by (simp add: request_task_def conversation_unknown)

theorem no_request_on_unknown_task_witness:
  "''grasp_everything'' \<notin> set task_names
   \<and> request_task sample_planner sample_helpers ''grasp_everything'' (Some ''frame.png'')
        (Some ''the red cup'') 218 []
       = (Inl (ValueError (NotValidTaskName ''grasp_everything'')), [])"
  using no_request_on_unknown_task [of "''grasp_everything''" "Some ''frame.png''"
      "Some ''the red cup''" sample_planner sample_helpers 218 "[]"]
  by (simp add: task_names_def)

end
